theory Spec2Isabelle
  imports Main
begin

section \<open>The create_user management command\<close>

text \<open>
  A shallow embedding of \<^verbatim>\<open>Command.handle\<close> of
  \<^verbatim>\<open>zerver/management/commands/create_user.py\<close>. The command reads its options,
  resolves a realm, an email, a full name and a password, and calls
  \<^verbatim>\<open>do_create_user\<close>. Everything it does besides computing is written out: each
  call of a collaborator and each use of the console is an entry of a trace, and each
  exception is a value.
\<close>

subsection \<open>Strings\<close>

text \<open>
  A Python \<^verbatim>\<open>str\<close> is a sequence of Unicode code points; it is modelled as the list of
  their numbers. The literals of the source (messages and prompts) are ASCII and are kept
  as HOL strings; \<open>ascii\<close> turns such a literal into a Python string.
\<close>

type_synonym pystr = "nat list"

definition ascii :: "string \<Rightarrow> pystr" where
  "ascii cs = map of_char cs"

text \<open>
  \<^verbatim>\<open>str.isspace\<close> on one code point: the code points that CPython's
  \<^verbatim>\<open>_PyUnicode_IsWhitespace\<close> accepts.
\<close>

definition py_isspace :: "nat \<Rightarrow> bool" where
  "py_isspace c =
     ((0x09 \<le> c \<and> c \<le> 0x0D) \<or> (0x1C \<le> c \<and> c \<le> 0x20) \<or> c = 0x85 \<or> c = 0xA0
      \<or> c = 0x1680 \<or> (0x2000 \<le> c \<and> c \<le> 0x200A) \<or> c = 0x2028 \<or> c = 0x2029
      \<or> c = 0x202F \<or> c = 0x205F \<or> c = 0x3000)"

text \<open>\<^verbatim>\<open>str.strip()\<close> without argument: whitespace is dropped at both ends.\<close>

definition py_strip :: "pystr \<Rightarrow> pystr" where
  "py_strip s = rev (dropWhile py_isspace (rev (dropWhile py_isspace s)))"

subsection \<open>Exceptions\<close>

text \<open>
  What \<^verbatim>\<open>open\<close> and \<^verbatim>\<open>read\<close> of the password file can raise. None of these is
  the database's \<^verbatim>\<open>IntegrityError\<close>.
\<close>

datatype io_error =
    FileNotFoundError
  | PermissionError
  | IsADirectoryError
  | UnicodeDecodeError
  | OtherOSError string

datatype exn =
    CommandError string
  | IntegrityError
  | EOFError
  | AssertionError
  | FileError io_error
  | OtherError string

subsection \<open>Options, collaborators and state\<close>

text \<open>
  The \<^verbatim>\<open>options\<close> dictionary as \<^verbatim>\<open>add_arguments\<close> makes the parser fill it:
  \<^verbatim>\<open>tos\<close> is a \<^verbatim>\<open>store_true\<close> flag, \<^verbatim>\<open>password\<close> and \<^verbatim>\<open>password_file\<close>
  default to \<^verbatim>\<open>None\<close>, and the two positionals have the default
  \<^verbatim>\<open>argparse.SUPPRESS\<close>: their key is in the dictionary only when the value was
  given. So \<open>None\<close> in \<open>email\<close> and \<open>full_name\<close> says that the key is absent,
  and \<open>None\<close> in \<open>password\<close> and \<open>password_file\<close> says that the value is
  \<^verbatim>\<open>None\<close>. \<open>realm_id\<close> is the realm selector added by \<^verbatim>\<open>add_realm_args\<close>.
\<close>

record options =
  tos :: bool
  password :: "pystr option"
  password_file :: "pystr option"
  email :: "pystr option"
  full_name :: "pystr option"
  realm_id :: "pystr option"

text \<open>
  The collaborators of the command, which are not part of the file, are parameters:
  \<^item> \<open>validate_email\<close>: \<^verbatim>\<open>validators.validate_email\<close>; \<open>False\<close> where it raises
    \<^verbatim>\<open>ValidationError\<close>;
  \<^item> \<open>get_realm\<close>: \<^verbatim>\<open>self.get_realm\<close>; it raises, or returns a realm or \<^verbatim>\<open>None\<close>;
  \<^item> \<open>read_file\<close>: \<^verbatim>\<open>open(path)\<close> followed by \<^verbatim>\<open>f.read()\<close>;
  \<^item> \<open>initial_password\<close>: the helper of that name; it raises, or returns a password or
    \<^verbatim>\<open>None\<close> for an unusable one. It is called inside the \<^verbatim>\<open>try\<close> of line 71, so
    what it raises meets the handler of line 89;
  \<^item> \<open>do_create_user\<close>: the user-creation operation, with the exception it raises, if any;
  \<^item> \<open>stdin\<close>: the lines of standard input by position, \<open>None\<close> from the end of the
    input on. The input may have no end.
  \<open>'r\<close> is the type of realms and \<open>'u\<close> the type of acting users.
\<close>

record ('r, 'u) env =
  validate_email :: "pystr \<Rightarrow> bool"
  get_realm :: "options \<Rightarrow> exn + 'r option"
  read_file :: "pystr \<Rightarrow> io_error + pystr"
  initial_password :: "pystr \<Rightarrow> exn + pystr option"
  do_create_user :: "pystr \<Rightarrow> pystr \<Rightarrow> 'r \<Rightarrow> pystr \<Rightarrow> 'u option \<Rightarrow> exn option"
  stdin :: "nat \<Rightarrow> pystr option"

text \<open>The effects of the command, in the order they happen.\<close>

datatype ('r, 'u) event =
    GetRealm
  | ValidateEmail pystr
  | Input string
  | PrintStderr string
  | OpenFile pystr
  | InitialPassword pystr
  | DoCreateUser pystr pystr 'r pystr "'u option"

record ('r, 'u) state =
  trace :: "('r, 'u) event list"
  stdin_pos :: nat

definition log :: "('r, 'u) event \<Rightarrow> ('r, 'u) state \<Rightarrow> ('r, 'u) state" where
  "log ev s = s\<lparr>trace := trace s @ [ev]\<rparr>"

text \<open>
  \<^verbatim>\<open>input(prompt)\<close>: the prompt is written and one line is read; at the end of the
  input \<^verbatim>\<open>EOFError\<close> is raised.
\<close>

definition py_input ::
  "('r, 'u) env \<Rightarrow> string \<Rightarrow> ('r, 'u) state \<Rightarrow> (exn + pystr) \<times> ('r, 'u) state" where
  "py_input env prompt s =
     (let s1 = log (Input prompt) s in
      case stdin env (stdin_pos s1) of
        None \<Rightarrow> (Inl EOFError, s1)
      | Some line \<Rightarrow> (Inr line, s1\<lparr>stdin_pos := Suc (stdin_pos s1)\<rparr>))"

subsection \<open>The command\<close>

definition tos_message :: string where
  "tos_message =
     ''You must confirm that this user has accepted the\<newline>Terms of Service by passing --this-user-has-accepted-the-tos.''"

definition usage_message :: string where
  "usage_message =
     ''Either specify an email and full name as two\<newline>parameters, or specify no parameters for interactive user creation.''"

text \<open>
  Lines 62 to 68, the loop \<^verbatim>\<open>while True\<close>: it asks for an email until one passes the
  validator. Nothing bounds the number of rounds, so the result is an option and \<open>None\<close>
  says that the loop never ends.
\<close>

partial_function (option) prompt_email ::
  "('r, 'u) env \<Rightarrow> ('r, 'u) state \<Rightarrow> ((exn + pystr) \<times> ('r, 'u) state) option" where
  "prompt_email env s =
     (case py_input env ''Email: '' s of
        (Inl e, s1) \<Rightarrow> Some (Inl e, s1)
      | (Inr line, s1) \<Rightarrow>
          (let s2 = log (ValidateEmail line) s1 in
           if validate_email env line then Some (Inr line, s2)
           else prompt_email env (log (PrintStderr ''Invalid email address.'') s2)))"

declare prompt_email.simps [code]

text \<open>
  Lines 51 and 52: the two subscripts \<^verbatim>\<open>options['email']\<close> and
  \<^verbatim>\<open>options['full_name']\<close>; \<open>None\<close> where one of them raises \<^verbatim>\<open>KeyError\<close>.
\<close>

definition lookup_positionals :: "options \<Rightarrow> (pystr \<times> pystr) option" where
  "lookup_positionals opts =
     (case email opts of
        None \<Rightarrow> None
      | Some e \<Rightarrow> (case full_name opts of None \<Rightarrow> None | Some n \<Rightarrow> Some (e, n)))"

text \<open>Lines 50 to 69: the email and the full name, from the options or from the console.\<close>

definition resolve_identity ::
  "('r, 'u) env \<Rightarrow> options \<Rightarrow> ('r, 'u) state \<Rightarrow>
     ((exn + pystr \<times> pystr) \<times> ('r, 'u) state) option" where
  "resolve_identity env opts s =
     (case lookup_positionals opts of
        Some (e, n) \<Rightarrow>
          (let s1 = log (ValidateEmail e) s in
           if validate_email env e then Some (Inr (e, n), s1)
           else Some (Inl (CommandError ''Invalid email address.''), s1))
      | None \<Rightarrow>
          if email opts \<noteq> None \<or> full_name opts \<noteq> None
          then Some (Inl (CommandError usage_message), s)
          else
            (case prompt_email env s of
               None \<Rightarrow> None
             | Some (Inl x, s1) \<Rightarrow> Some (Inl x, s1)
             | Some (Inr e, s1) \<Rightarrow>
                 (case py_input env ''Full name: '' s1 of
                    (Inl x, s2) \<Rightarrow> Some (Inl x, s2)
                  | (Inr n, s2) \<Rightarrow> Some (Inr (e, n), s2))))"

text \<open>Lines 72 to 81: the password, from the file, the option or the helper.\<close>

definition resolve_password ::
  "('r, 'u) env \<Rightarrow> options \<Rightarrow> pystr \<Rightarrow> ('r, 'u) state \<Rightarrow> (exn + pystr) \<times> ('r, 'u) state" where
  "resolve_password env opts em s =
     (case password_file opts of
        Some path \<Rightarrow>
          (let s1 = log (OpenFile path) s in
           case read_file env path of
             Inl x \<Rightarrow> (Inl (FileError x), s1)
           | Inr contents \<Rightarrow> (Inr (py_strip contents), s1))
      | None \<Rightarrow>
          (case password opts of
             Some p \<Rightarrow> (Inr p, s)
           | None \<Rightarrow>
               (let s1 = log (InitialPassword em) s in
                case initial_password env em of
                  Inl x \<Rightarrow> (Inl x, s1)
                | Inr None \<Rightarrow> (Inl (CommandError ''Password is unusable.''), s1)
                | Inr (Some p) \<Rightarrow> (Inr p, s1))))"

text \<open>Lines 82 to 88: the call of \<^verbatim>\<open>do_create_user\<close>, with \<^verbatim>\<open>acting_user=None\<close>.\<close>

definition call_create ::
  "('r, 'u) env \<Rightarrow> 'r \<Rightarrow> pystr \<Rightarrow> pystr \<Rightarrow> pystr \<Rightarrow> ('r, 'u) state \<Rightarrow>
     (exn + unit) \<times> ('r, 'u) state" where
  "call_create env realm em name pw s =
     (let s1 = log (DoCreateUser em pw realm name None) s in
      case do_create_user env em pw realm name None of
        Some x \<Rightarrow> (Inl x, s1)
      | None \<Rightarrow> (Inr (), s1))"

text \<open>Lines 72 to 88, the body of the second \<^verbatim>\<open>try\<close>.\<close>

definition create_body ::
  "('r, 'u) env \<Rightarrow> options \<Rightarrow> 'r \<Rightarrow> pystr \<Rightarrow> pystr \<Rightarrow> ('r, 'u) state \<Rightarrow>
     (exn + unit) \<times> ('r, 'u) state" where
  "create_body env opts realm em name s =
     (case resolve_password env opts em s of
        (Inl x, s1) \<Rightarrow> (Inl x, s1)
      | (Inr pw, s1) \<Rightarrow> call_create env realm em name pw s1)"

text \<open>
  Lines 89 and 90, the handler \<^verbatim>\<open>except IntegrityError\<close> applied to the outcome
  of the body: that one exception is replaced, every other outcome is left as it is.
\<close>

definition except_integrity_error ::
  "(exn + unit) \<times> ('r, 'u) state \<Rightarrow> (exn + unit) \<times> ('r, 'u) state" where
  "except_integrity_error out =
     (if fst out = Inl IntegrityError
      then (Inl (CommandError ''User already exists.''), snd out)
      else out)"

text \<open>
  \<^verbatim>\<open>Command.handle\<close>. The result is \<open>None\<close> when the command never returns,
  \<open>Some (Inl x, s)\<close> when it raises \<open>x\<close> and \<open>Some (Inr (), s)\<close> when it
  returns, \<open>s\<close> being the state it leaves.
\<close>

definition handle ::
  "('r, 'u) env \<Rightarrow> options \<Rightarrow> ('r, 'u) state \<Rightarrow> ((exn + unit) \<times> ('r, 'u) state) option" where
  "handle env opts s =
     (if \<not> tos opts then Some (Inl (CommandError tos_message), s)
      else
        (let s1 = log GetRealm s in
         case get_realm env opts of
           Inl x \<Rightarrow> Some (Inl x, s1)
         | Inr None \<Rightarrow> Some (Inl AssertionError, s1)
         | Inr (Some realm) \<Rightarrow>
             (case resolve_identity env opts s1 of
                None \<Rightarrow> None
              | Some (Inl x, s2) \<Rightarrow> Some (Inl x, s2)
              | Some (Inr (em, name), s2) \<Rightarrow>
                  Some (except_integrity_error (create_body env opts realm em name s2)))))"

subsection \<open>Observing an invocation\<close>

text \<open>The calls of the user-creation operation that a state has recorded.\<close>

fun is_create :: "('r, 'u) event \<Rightarrow> bool" where
  "is_create (DoCreateUser em pw realm name actor) = True"
| "is_create ev = False"

definition creations :: "('r, 'u) state \<Rightarrow> ('r, 'u) event list" where
  "creations s = filter is_create (trace s)"

text \<open>The console traffic of one rejected round of the loop of lines 62 to 68.\<close>

definition rejected :: "pystr list \<Rightarrow> ('r, 'u) event list" where
  "rejected bad =
     concat (map (\<lambda>line. [Input ''Email: '', ValidateEmail line,
                           PrintStderr ''Invalid email address.'']) bad)"

text \<open>
  Modelled from the spec: the runner of the management framework, which turns what
  \<^verbatim>\<open>handle\<close> raises into the exit status of the process, is not part of the file.
  Section 6 of the specification: the exit is non-zero on a failure and zero on success.
\<close>

definition exit_nonzero :: "exn + unit \<Rightarrow> bool" where
  "exit_nonzero r = (case r of Inl x \<Rightarrow> True | Inr u \<Rightarrow> False)"

subsection \<open>A concrete installation\<close>

text \<open>
  One realm, one password file, a validator that asks for an at sign, and three lines on
  standard input. The theorems below are instantiated on it.
\<close>

definition demo_env :: "(nat, nat) env" where
  "demo_env =
     \<lparr>validate_email = (\<lambda>e. 64 \<in> set e),
      get_realm = (\<lambda>opts. case realm_id opts of
                      None \<Rightarrow> Inr None
                    | Some r \<Rightarrow> if r = ascii ''zulip'' then Inr (Some 1)
                               else Inl (CommandError ''There is no realm with that id.'')),
      read_file = (\<lambda>p. if p = ascii ''pw.txt'' then Inr (ascii ''  secret123  \<newline>'')
                      else Inl FileNotFoundError),
      initial_password = (\<lambda>e. if e = ascii ''iago@zulip.com'' then Inr (Some (ascii ''xyz''))
                             else if e = ascii ''clash@zulip.com'' then Inl IntegrityError
                             else Inr None),
      do_create_user = (\<lambda>e p r n a. if e = ascii ''dup@zulip.com'' then Some IntegrityError
                                 else if e = ascii ''down@zulip.com'' then Some (OtherError ''database is down'')
                                 else None),
      stdin = (\<lambda>i. if i = 0 then Some (ascii ''bad'')
                  else if i = 1 then Some (ascii ''iago@zulip.com'')
                  else if i = 2 then Some (ascii ''Iago'')
                  else None)\<rparr>"

definition demo_opts :: options where
  "demo_opts =
     \<lparr>tos = True, password = Some (ascii ''hunter2''), password_file = Some (ascii ''pw.txt''),
      email = Some (ascii ''iago@zulip.com''), full_name = Some (ascii ''Iago''),
      realm_id = Some (ascii ''zulip'')\<rparr>"

definition s0 :: "(nat, nat) state" where
  "s0 = \<lparr>trace = [], stdin_pos = 0\<rparr>"

section \<open>Properties\<close>

subsection \<open>The trace and the console\<close>

lemma creations_log:
  "creations (log ev s) = creations s @ (if is_create ev then [ev] else [])"
  by (simp add: creations_def log_def)

lemma creations_stdin_pos:
  "creations (s\<lparr>stdin_pos := n\<rparr>) = creations s"
  by (simp add: creations_def)

lemma py_input_line:
  "stdin env (stdin_pos s) = Some line \<Longrightarrow>
   py_input env prompt s = (Inr line, \<lparr>trace = trace s @ [Input prompt], stdin_pos = Suc (stdin_pos s)\<rparr>)"
  by (simp add: py_input_def log_def)

lemma py_input_eof:
  "stdin env (stdin_pos s) = None \<Longrightarrow> py_input env prompt s = (Inl EOFError, log (Input prompt) s)"
  by (simp add: py_input_def log_def)

lemma py_input_creations:
  "py_input env prompt s = (r, s') \<Longrightarrow> creations s' = creations s"
  by (auto simp: py_input_def log_def creations_def Let_def split: option.splits)

lemma prompt_email_reject:
  assumes "stdin env (stdin_pos s) = Some b" and "\<not> validate_email env b"
  shows "prompt_email env s =
         prompt_email env \<lparr>trace = trace s @ rejected [b], stdin_pos = Suc (stdin_pos s)\<rparr>"
  using assms
  by (subst prompt_email.simps) (simp add: py_input_line log_def rejected_def)

lemma prompt_email_accept:
  assumes "stdin env (stdin_pos s) = Some e" and "validate_email env e"
  shows "prompt_email env s =
         Some (Inr e, \<lparr>trace = trace s @ [Input ''Email: '', ValidateEmail e],
                       stdin_pos = Suc (stdin_pos s)\<rparr>)"
  using assms
  by (subst prompt_email.simps) (simp add: py_input_line log_def)

lemma prompt_email_eof:
  assumes "stdin env (stdin_pos s) = None"
  shows "prompt_email env s = Some (Inl EOFError, log (Input ''Email: '') s)"
  using assms
  by (subst prompt_email.simps) (simp add: py_input_eof)

lemma prompt_email_rounds:
  assumes "\<forall>i<length bad. stdin env (stdin_pos s + i) = Some (bad ! i) \<and> \<not> validate_email env (bad ! i)"
  shows "prompt_email env s =
         prompt_email env \<lparr>trace = trace s @ rejected bad, stdin_pos = stdin_pos s + length bad\<rparr>"
  using assms
proof (induction bad arbitrary: s)
  case Nil
  then show ?case by (cases s) (simp add: rejected_def)
next
  case (Cons b bad)
  let ?s1 = "\<lparr>trace = trace s @ rejected [b], stdin_pos = Suc (stdin_pos s)\<rparr> :: ('a, 'b) state"
  from Cons.prems have hd: "stdin env (stdin_pos s) = Some b" "\<not> validate_email env b"
    by auto
  from Cons.prems have tl:
    "\<forall>i<length bad. stdin env (stdin_pos ?s1 + i) = Some (bad ! i) \<and> \<not> validate_email env (bad ! i)"
    by fastforce
  have "prompt_email env s = prompt_email env ?s1"
    using hd by (rule prompt_email_reject)
  also have "\<dots> = prompt_email env \<lparr>trace = trace ?s1 @ rejected bad, stdin_pos = stdin_pos ?s1 + length bad\<rparr>"
    using tl by (rule Cons.IH)
  finally show ?case by (simp add: rejected_def)
qed

lemma prompt_email_creations:
  "prompt_email env s = Some out \<Longrightarrow> creations (snd out) = creations s"
proof (induction rule: prompt_email.raw_induct[rotated 1, consumes 1, case_names step])
  case (step loop env s out)
  then show ?case
    by (auto simp: py_input_def Let_def creations_log creations_stdin_pos
             split: option.splits if_splits)
qed

lemma prompt_email_returns:
  "prompt_email env s = Some out \<Longrightarrow>
   \<exists>k. stdin env (stdin_pos s + k) = None \<or> (\<exists>e. stdin env (stdin_pos s + k) = Some e \<and> validate_email env e)"
proof (induction rule: prompt_email.raw_induct[rotated 1, consumes 1, case_names step])
  case (step loop env s out)
  show ?case
  proof (cases "stdin env (stdin_pos s)")
    case None
    then have "stdin env (stdin_pos s + 0) = None" by simp
    then show ?thesis by blast
  next
    case (Some line)
    show ?thesis
    proof (cases "validate_email env line")
      case True
      with Some have "stdin env (stdin_pos s + 0) = Some line \<and> validate_email env line" by simp
      then show ?thesis by blast
    next
      case False
      let ?s1 = "log (PrintStderr ''Invalid email address.'') (log (ValidateEmail line) (log (Input ''Email: '') s\<lparr>stdin_pos := Suc (stdin_pos s)\<rparr>))"
      from Some False step(2) have "loop env ?s1 = Some out"
        by (simp add: py_input_def Let_def log_def)
      from step(1)[OF this] obtain k where
        "stdin env (stdin_pos ?s1 + k) = None \<or> (\<exists>e. stdin env (stdin_pos ?s1 + k) = Some e \<and> validate_email env e)"
        by blast
      moreover have "stdin_pos ?s1 + k = stdin_pos s + Suc k" by (simp add: log_def)
      ultimately show ?thesis by metis
    qed
  qed
qed

lemma prompt_email_diverges:
  assumes "\<forall>k. \<exists>line. stdin env (stdin_pos s + k) = Some line \<and> \<not> validate_email env line"
  shows "prompt_email env s = None"
proof (cases "prompt_email env s")
  case None
  then show ?thesis .
next
  case (Some out)
  from prompt_email_returns[OF this] obtain k where
    "stdin env (stdin_pos s + k) = None \<or> (\<exists>e. stdin env (stdin_pos s + k) = Some e \<and> validate_email env e)"
    by blast
  moreover from assms obtain line where
    "stdin env (stdin_pos s + k) = Some line \<and> \<not> validate_email env line"
    by blast
  ultimately show ?thesis by auto
qed

subsection \<open>The phases\<close>

lemma resolve_identity_creations:
  assumes "resolve_identity env opts s = Some out"
  shows "creations (snd out) = creations s"
proof (cases "lookup_positionals opts")
  case (Some p)
  with assms show ?thesis
    by (cases p) (auto simp: resolve_identity_def Let_def creations_log split: if_splits)
next
  case None
  show ?thesis
  proof (cases "email opts \<noteq> None \<or> full_name opts \<noteq> None")
    case True
    with None assms show ?thesis by (auto simp: resolve_identity_def)
  next
    case False
    with None assms obtain r s1 where loop: "prompt_email env s = Some (r, s1)"
      by (cases "prompt_email env s") (auto simp: resolve_identity_def)
    from prompt_email_creations[OF loop] have c1: "creations s1 = creations s" by simp
    show ?thesis
    proof (cases r)
      case (Inl x)
      with None False loop assms c1 show ?thesis by (auto simp: resolve_identity_def)
    next
      case (Inr e)
      obtain r2 s2 where inp: "py_input env ''Full name: '' s1 = (r2, s2)"
        by (cases "py_input env ''Full name: '' s1")
      from py_input_creations[OF inp] c1 have "creations s2 = creations s" by simp
      with None False loop assms Inr inp show ?thesis
        by (cases r2) (auto simp: resolve_identity_def)
    qed
  qed
qed

lemma resolve_password_creations:
  "resolve_password env opts em s = (r, s') \<Longrightarrow> creations s' = creations s"
  by (auto simp: resolve_password_def Let_def creations_log split: option.splits sum.splits)

lemma handle_reaches_creation:
  assumes "tos opts" and "get_realm env opts = Inr (Some realm)"
    and "resolve_identity env opts (log GetRealm s) = Some (Inr (em, name), s2)"
  shows "handle env opts s = Some (except_integrity_error (create_body env opts realm em name s2))"
  using assms by (simp add: handle_def Let_def)

lemma handle_fails_in_identity:
  assumes "tos opts" and "get_realm env opts = Inr (Some realm)"
    and "resolve_identity env opts (log GetRealm s) = Some (Inl x, s2)"
  shows "handle env opts s = Some (Inl x, s2)"
  using assms by (simp add: handle_def Let_def)

lemma handle_early_failure:
  assumes "\<not> tos opts \<or> (\<forall>realm. get_realm env opts \<noteq> Inr (Some realm))"
  shows "\<exists>x s'. handle env opts s = Some (Inl x, s') \<and> creations s' = creations s"
proof (cases "tos opts")
  case False
  then show ?thesis by (simp add: handle_def)
next
  case True
  with assms have no: "\<forall>realm. get_realm env opts \<noteq> Inr (Some realm)" by simp
  show ?thesis
  proof (cases "get_realm env opts")
    case (Inl x)
    with True show ?thesis by (simp add: handle_def Let_def creations_log)
  next
    case (Inr r)
    with no have "r = None" by (cases r) auto
    with True Inr show ?thesis by (simp add: handle_def Let_def creations_log)
  qed
qed

lemma create_body_file:
  assumes "password_file opts = Some path" and "read_file env path = Inr contents"
  shows "create_body env opts realm em name s =
         call_create env realm em name (py_strip contents) (log (OpenFile path) s)"
  using assms by (simp add: create_body_def resolve_password_def Let_def)

lemma create_body_option:
  assumes "password_file opts = None" and "password opts = Some p"
  shows "create_body env opts realm em name s = call_create env realm em name p s"
  using assms by (simp add: create_body_def resolve_password_def)

lemma create_body_helper:
  assumes "password_file opts = None" and "password opts = None"
    and "initial_password env em = Inr (Some p)"
  shows "create_body env opts realm em name s =
         call_create env realm em name p (log (InitialPassword em) s)"
  using assms by (simp add: create_body_def resolve_password_def Let_def)

subsection \<open>Stripping\<close>

lemma strip_inner_split:
  "d = rev (dropWhile P (rev d)) @ rev (takeWhile P (rev d))"
proof -
  have "rev (rev d) = rev (takeWhile P (rev d) @ dropWhile P (rev d))"
    by (simp only: takeWhile_dropWhile_id)
  then show ?thesis
    by (simp only: rev_rev_ident rev_append)
qed

lemma py_strip_decompose:
  "\<exists>pre suf. s = pre @ py_strip s @ suf \<and> list_all py_isspace pre \<and> list_all py_isspace suf"
proof -
  let ?d = "dropWhile py_isspace s"
  let ?pre = "takeWhile py_isspace s"
  let ?suf = "rev (takeWhile py_isspace (rev ?d))"
  have d: "?d = py_strip s @ ?suf"
    unfolding py_strip_def by (rule strip_inner_split)
  have "s = ?pre @ ?d"
    by (simp only: takeWhile_dropWhile_id)
  with d have "s = ?pre @ py_strip s @ ?suf"
    by (simp only:)
  moreover have "list_all py_isspace ?pre"
    unfolding list_all_iff by (blast dest: set_takeWhileD)
  moreover have "list_all py_isspace ?suf"
    unfolding list_all_iff set_rev by (blast dest: set_takeWhileD)
  ultimately show ?thesis by blast
qed

lemma py_strip_last:
  assumes "py_strip s = front @ [c]"
  shows "\<not> py_isspace c"
proof -
  let ?d = "dropWhile py_isspace s"
  let ?r = "dropWhile py_isspace (rev ?d)"
  from assms have "rev ?r = front @ [c]"
    by (simp only: py_strip_def)
  then have "rev (rev ?r) = rev (front @ [c])"
    by (rule arg_cong)
  then have r: "?r = c # rev front"
    by (simp only: rev_rev_ident rev_append rev.simps append.simps)
  then have "?r \<noteq> []" and "hd ?r = c"
    by (simp_all only: list.sel list.distinct not_False_eq_True)
  with hd_dropWhile[of py_isspace "rev ?d"] show ?thesis
    by blast
qed

lemma py_strip_first:
  assumes "py_strip s = c # rest"
  shows "\<not> py_isspace c"
proof -
  let ?d = "dropWhile py_isspace s"
  let ?suf = "rev (takeWhile py_isspace (rev ?d))"
  have "?d = py_strip s @ ?suf"
    unfolding py_strip_def by (rule strip_inner_split)
  with assms have "?d = c # (rest @ ?suf)"
    by (simp only: append.simps)
  then obtain tail where "?d = c # tail" ..
  then have "?d \<noteq> []" and "hd ?d = c"
    by (metis list.distinct(1), metis list.sel(1))
  with hd_dropWhile[of py_isspace s] show ?thesis
    by blast
qed

lemma py_strip_example:
  "py_strip (ascii ''  secret123  \<newline>'') = ascii ''secret123''"
  by (simp add: py_strip_def ascii_def py_isspace_def)

subsection \<open>The terms-of-service guard\<close>

text \<open>
  C2. When the flag \<^verbatim>\<open>tos\<close> is false the command raises the command error of
  lines 45 and 46 and leaves the state as it found it: nothing was added to the trace (no
  realm lookup, no validation, no prompt, no file or helper access, no user creation) and
  nothing was read from standard input, whatever the other options are.
\<close>

theorem tos_not_accepted_fails_first:
  "\<not> tos opts \<Longrightarrow> handle env opts s = Some (Inl (CommandError tos_message), s)"
  by (simp add: handle_def)

theorem tos_not_accepted_fails_first_witness:
  "\<not> tos (demo_opts\<lparr>tos := False\<rparr>) \<and>
   handle demo_env (demo_opts\<lparr>tos := False\<rparr>) s0 = Some (Inl (CommandError tos_message), s0)"
  using tos_not_accepted_fails_first [of "demo_opts\<lparr>tos := False\<rparr>" demo_env s0]
  by simp

subsection \<open>One positional value\<close>

text \<open>
  C4, as stated, against the code: with the email alone and without the flag \<^verbatim>\<open>tos\<close>
  the command fails with the message of the guard of line 44, not with the usage message.
\<close>

theorem one_positional_counterexample:
  "email (demo_opts\<lparr>tos := False, full_name := None\<rparr>) \<noteq> None \<and>
   full_name (demo_opts\<lparr>tos := False, full_name := None\<rparr>) = None \<and>
   handle demo_env (demo_opts\<lparr>tos := False, full_name := None\<rparr>) s0
     = Some (Inl (CommandError tos_message), s0) \<and>
   tos_message \<noteq> usage_message"
  by (simp add: handle_def demo_opts_def tos_message_def usage_message_def)

text \<open>
  C4, amended. When exactly one of email and full name is given, the command fails and
  never calls the user-creation operation; and when the flag \<^verbatim>\<open>tos\<close> is set and
  the realm resolves, the failure is the usage error of lines 59 and 60, raised right
  after the realm lookup.
\<close>

theorem one_positional_usage_error:
  assumes "(email opts = None) \<noteq> (full_name opts = None)"
  shows "(\<exists>x s'. handle env opts s = Some (Inl x, s') \<and> creations s' = creations s) \<and>
         (tos opts \<longrightarrow> (\<forall>realm. get_realm env opts = Inr (Some realm) \<longrightarrow>
            handle env opts s = Some (Inl (CommandError usage_message), log GetRealm s)))"
proof -
  from assms have ident: "resolve_identity env opts s1 = Some (Inl (CommandError usage_message), s1)" for s1
    by (auto simp: resolve_identity_def lookup_positionals_def split: option.splits)
  have late: "handle env opts s = Some (Inl (CommandError usage_message), log GetRealm s)"
    if "tos opts" and "get_realm env opts = Inr (Some realm)" for realm
    using that ident by (rule handle_fails_in_identity)
  have "\<exists>x s'. handle env opts s = Some (Inl x, s') \<and> creations s' = creations s"
  proof (cases "tos opts \<and> (\<exists>realm. get_realm env opts = Inr (Some realm))")
    case True
    then obtain realm where "tos opts" "get_realm env opts = Inr (Some realm)" by blast
    from late[OF this] show ?thesis by (simp add: creations_log)
  next
    case False
    then have "\<not> tos opts \<or> (\<forall>realm. get_realm env opts \<noteq> Inr (Some realm))" by blast
    then show ?thesis by (rule handle_early_failure)
  qed
  with late show ?thesis by blast
qed

theorem one_positional_usage_error_witness:
  "(email (demo_opts\<lparr>full_name := None\<rparr>) = None) \<noteq> (full_name (demo_opts\<lparr>full_name := None\<rparr>) = None) \<and>
   handle demo_env (demo_opts\<lparr>full_name := None\<rparr>) s0
     = Some (Inl (CommandError usage_message), \<lparr>trace = [GetRealm], stdin_pos = 0\<rparr>)"
proof -
  have h: "(email (demo_opts\<lparr>full_name := None\<rparr>) = None) \<noteq> (full_name (demo_opts\<lparr>full_name := None\<rparr>) = None)"
    by (simp add: demo_opts_def)
  have t: "tos (demo_opts\<lparr>full_name := None\<rparr>)"
    by (simp add: demo_opts_def)
  have r: "get_realm demo_env (demo_opts\<lparr>full_name := None\<rparr>) = Inr (Some 1)"
    by (simp add: demo_env_def demo_opts_def)
  from one_positional_usage_error [OF h, of demo_env s0] t r
  have "handle demo_env (demo_opts\<lparr>full_name := None\<rparr>) s0
          = Some (Inl (CommandError usage_message), log GetRealm s0)"
    by blast
  with h show ?thesis by (simp add: log_def s0_def)
qed

subsection \<open>An invalid email on the command line\<close>

text \<open>
  C5, as stated, against the code: with both positionals, an email that the validator
  rejects and no flag \<^verbatim>\<open>tos\<close>, the command fails with the message of the guard of
  line 44, not with the validation error.
\<close>

theorem invalid_email_counterexample:
  "email (demo_opts\<lparr>tos := False, email := Some (ascii ''nobody'')\<rparr>) = Some (ascii ''nobody'') \<and>
   full_name (demo_opts\<lparr>tos := False, email := Some (ascii ''nobody'')\<rparr>) = Some (ascii ''Iago'') \<and>
   \<not> validate_email demo_env (ascii ''nobody'') \<and>
   handle demo_env (demo_opts\<lparr>tos := False, email := Some (ascii ''nobody'')\<rparr>) s0
     = Some (Inl (CommandError tos_message), s0) \<and>
   tos_message \<noteq> ''Invalid email address.''"
  by (simp add: handle_def demo_opts_def demo_env_def ascii_def tos_message_def)

text \<open>
  C5, amended. When both positionals are given and the validator rejects the email, the
  command fails and never calls the user-creation operation; and when the flag
  \<^verbatim>\<open>tos\<close> is set and the realm resolves, the failure is the command error
  \<^verbatim>\<open>Invalid email address.\<close> of line 56, raised right after the validation.
\<close>

theorem invalid_email_rejected:
  assumes "email opts = Some e" and "full_name opts = Some name" and "\<not> validate_email env e"
  shows "(\<exists>x s'. handle env opts s = Some (Inl x, s') \<and> creations s' = creations s) \<and>
         (tos opts \<longrightarrow> (\<forall>realm. get_realm env opts = Inr (Some realm) \<longrightarrow>
            handle env opts s =
              Some (Inl (CommandError ''Invalid email address.''),
                    log (ValidateEmail e) (log GetRealm s))))"
proof -
  from assms have ident:
    "resolve_identity env opts s1 = Some (Inl (CommandError ''Invalid email address.''), log (ValidateEmail e) s1)" for s1
    by (simp add: resolve_identity_def lookup_positionals_def Let_def)
  have late: "handle env opts s =
                Some (Inl (CommandError ''Invalid email address.''), log (ValidateEmail e) (log GetRealm s))"
    if "tos opts" and "get_realm env opts = Inr (Some realm)" for realm
    using that ident by (rule handle_fails_in_identity)
  have "\<exists>x s'. handle env opts s = Some (Inl x, s') \<and> creations s' = creations s"
  proof (cases "tos opts \<and> (\<exists>realm. get_realm env opts = Inr (Some realm))")
    case True
    then obtain realm where "tos opts" "get_realm env opts = Inr (Some realm)" by blast
    from late[OF this] show ?thesis by (simp add: creations_log)
  next
    case False
    then have "\<not> tos opts \<or> (\<forall>realm. get_realm env opts \<noteq> Inr (Some realm))" by blast
    then show ?thesis by (rule handle_early_failure)
  qed
  with late show ?thesis by blast
qed

theorem invalid_email_rejected_witness:
  "email (demo_opts\<lparr>email := Some (ascii ''nobody'')\<rparr>) = Some (ascii ''nobody'') \<and>
   full_name (demo_opts\<lparr>email := Some (ascii ''nobody'')\<rparr>) = Some (ascii ''Iago'') \<and>
   \<not> validate_email demo_env (ascii ''nobody'') \<and>
   handle demo_env (demo_opts\<lparr>email := Some (ascii ''nobody'')\<rparr>) s0
     = Some (Inl (CommandError ''Invalid email address.''),
             \<lparr>trace = [GetRealm, ValidateEmail (ascii ''nobody'')], stdin_pos = 0\<rparr>)"
proof -
  have h1: "email (demo_opts\<lparr>email := Some (ascii ''nobody'')\<rparr>) = Some (ascii ''nobody'')"
    by simp
  have h2: "full_name (demo_opts\<lparr>email := Some (ascii ''nobody'')\<rparr>) = Some (ascii ''Iago'')"
    by (simp add: demo_opts_def)
  have h3: "\<not> validate_email demo_env (ascii ''nobody'')"
    by (simp add: demo_env_def ascii_def)
  have t: "tos (demo_opts\<lparr>email := Some (ascii ''nobody'')\<rparr>)"
    by (simp add: demo_opts_def)
  have r: "get_realm demo_env (demo_opts\<lparr>email := Some (ascii ''nobody'')\<rparr>) = Inr (Some 1)"
    by (simp add: demo_env_def demo_opts_def)
  from invalid_email_rejected [OF h1 h2 h3, of s0] t r
  have "handle demo_env (demo_opts\<lparr>email := Some (ascii ''nobody'')\<rparr>) s0
          = Some (Inl (CommandError ''Invalid email address.''),
                  log (ValidateEmail (ascii ''nobody'')) (log GetRealm s0))"
    by blast
  with h1 h2 h3 show ?thesis by (simp add: log_def s0_def)
qed

subsection \<open>Where the password comes from\<close>

text \<open>
  C1, as stated, against the code: with the password file \<^verbatim>\<open>pw.txt\<close>, whose
  contents are \<^verbatim>\<open>"  secret123  \n"\<close>, the password passed to
  \<^verbatim>\<open>do_create_user\<close> is \<^verbatim>\<open>"secret123"\<close>, which is not the contents of the file:
  line 74 strips them.
\<close>

theorem password_precedence_counterexample:
  "password_file demo_opts = Some (ascii ''pw.txt'') \<and>
   read_file demo_env (ascii ''pw.txt'') = Inr (ascii ''  secret123  \<newline>'') \<and>
   handle demo_env demo_opts s0 =
     Some (Inr (),
       \<lparr>trace = [GetRealm, ValidateEmail (ascii ''iago@zulip.com''), OpenFile (ascii ''pw.txt''),
                 DoCreateUser (ascii ''iago@zulip.com'') (ascii ''secret123'') 1 (ascii ''Iago'') None],
        stdin_pos = 0\<rparr>) \<and>
   ascii ''secret123'' \<noteq> ascii ''  secret123  \<newline>''"
  by (simp add: handle_def demo_env_def demo_opts_def s0_def log_def resolve_identity_def
        lookup_positionals_def except_integrity_error_def create_body_def call_create_def
        resolve_password_def py_strip_def ascii_def py_isspace_def)

text \<open>
  C1, amended. The password that reaches \<^verbatim>\<open>do_create_user\<close> follows a fixed
  precedence, the first match winning. For an invocation that gets as far as the password
  (the flag \<^verbatim>\<open>tos\<close> is set, the realm and the identity are resolved): with a
  password file that can be read, it is the contents of the file without their leading and
  trailing whitespace, whatever \<^verbatim>\<open>--password\<close> says; with no file and a
  \<^verbatim>\<open>--password\<close>, it is that string; with neither, it is the initial password that
  the helper generates for the email. And with a file, the value of \<^verbatim>\<open>--password\<close>
  has no influence on the resolution.
\<close>

theorem password_precedence:
  assumes "tos opts" and "get_realm env opts = Inr (Some realm)"
    and "resolve_identity env opts (log GetRealm s) = Some (Inr (em, name), s2)"
  shows "(\<forall>path contents. password_file opts = Some path \<longrightarrow> read_file env path = Inr contents \<longrightarrow>
            handle env opts s =
              Some (except_integrity_error
                (call_create env realm em name (py_strip contents) (log (OpenFile path) s2)))) \<and>
         (\<forall>p. password_file opts = None \<longrightarrow> password opts = Some p \<longrightarrow>
            handle env opts s =
              Some (except_integrity_error (call_create env realm em name p s2))) \<and>
         (\<forall>p. password_file opts = None \<longrightarrow> password opts = None \<longrightarrow>
              initial_password env em = Inr (Some p) \<longrightarrow>
            handle env opts s =
              Some (except_integrity_error
                (call_create env realm em name p (log (InitialPassword em) s2)))) \<and>
         (\<forall>q. password_file opts \<noteq> None \<longrightarrow>
            resolve_password env (opts\<lparr>password := q\<rparr>) em s2 = resolve_password env opts em s2)"
proof -
  note reach = handle_reaches_creation[OF assms]
  have "resolve_password env (opts\<lparr>password := q\<rparr>) em s2 = resolve_password env opts em s2"
    if "password_file opts \<noteq> None" for q
    using that by (auto simp: resolve_password_def)
  then show ?thesis
    by (simp add: reach create_body_file create_body_option create_body_helper)
qed

theorem password_precedence_witness:
  "tos demo_opts \<and> get_realm demo_env demo_opts = Inr (Some 1) \<and>
   password demo_opts = Some (ascii ''hunter2'') \<and>
   password_file demo_opts = Some (ascii ''pw.txt'') \<and>
   handle demo_env demo_opts s0 =
     Some (Inr (),
       \<lparr>trace = [GetRealm, ValidateEmail (ascii ''iago@zulip.com''), OpenFile (ascii ''pw.txt''),
                 DoCreateUser (ascii ''iago@zulip.com'') (ascii ''secret123'') 1 (ascii ''Iago'') None],
        stdin_pos = 0\<rparr>)"
proof -
  have t: "tos demo_opts"
    by (simp add: demo_opts_def)
  have r: "get_realm demo_env demo_opts = Inr (Some 1)"
    by (simp add: demo_env_def demo_opts_def)
  have i: "resolve_identity demo_env demo_opts (log GetRealm s0) =
             Some (Inr (ascii ''iago@zulip.com'', ascii ''Iago''),
                   log (ValidateEmail (ascii ''iago@zulip.com'')) (log GetRealm s0))"
    by (simp add: resolve_identity_def lookup_positionals_def demo_opts_def demo_env_def ascii_def)
  have f: "password_file demo_opts = Some (ascii ''pw.txt'')"
    by (simp add: demo_opts_def)
  have c: "read_file demo_env (ascii ''pw.txt'') = Inr (ascii ''  secret123  \<newline>'')"
    by (simp add: demo_env_def)
  have p: "password demo_opts = Some (ascii ''hunter2'')"
    by (simp add: demo_opts_def)
  from password_precedence [OF t r i] f c
  have "handle demo_env demo_opts s0 =
          Some (except_integrity_error
            (call_create demo_env 1 (ascii ''iago@zulip.com'') (ascii ''Iago'')
               (py_strip (ascii ''  secret123  \<newline>''))
               (log (OpenFile (ascii ''pw.txt''))
                  (log (ValidateEmail (ascii ''iago@zulip.com'')) (log GetRealm s0)))))"
    by blast
  moreover have "do_create_user demo_env (ascii ''iago@zulip.com'') (ascii ''secret123'') 1 (ascii ''Iago'') None = None"
    by (simp add: demo_env_def ascii_def)
  ultimately have "handle demo_env demo_opts s0 =
     Some (Inr (),
       \<lparr>trace = [GetRealm, ValidateEmail (ascii ''iago@zulip.com''), OpenFile (ascii ''pw.txt''),
                 DoCreateUser (ascii ''iago@zulip.com'') (ascii ''secret123'') 1 (ascii ''Iago'') None],
        stdin_pos = 0\<rparr>)"
    by (simp add: py_strip_example call_create_def except_integrity_error_def log_def s0_def)
  with t r p f show ?thesis by simp
qed

text \<open>
  C6. With a password file that can be read, the resolved password, which is the one
  passed to \<^verbatim>\<open>do_create_user\<close>, is the contents of the file without its leading
  and trailing whitespace: the contents are some whitespace, the password, some
  whitespace, and the password neither starts nor ends with whitespace. For the contents
  \<^verbatim>\<open>"  secret123  \n"\<close> the password is \<^verbatim>\<open>"secret123"\<close>.
\<close>

theorem password_file_stripped:
  assumes "tos opts" and "get_realm env opts = Inr (Some realm)"
    and "resolve_identity env opts (log GetRealm s) = Some (Inr (em, name), s2)"
    and "password_file opts = Some path" and "read_file env path = Inr contents"
  shows "resolve_password env opts em s2 = (Inr (py_strip contents), log (OpenFile path) s2) \<and>
         handle env opts s =
           Some (except_integrity_error
             (call_create env realm em name (py_strip contents) (log (OpenFile path) s2))) \<and>
         (\<exists>pre suf. contents = pre @ py_strip contents @ suf \<and>
            list_all py_isspace pre \<and> list_all py_isspace suf) \<and>
         (\<forall>c rest. py_strip contents = c # rest \<longrightarrow> \<not> py_isspace c) \<and>
         (\<forall>front c. py_strip contents = front @ [c] \<longrightarrow> \<not> py_isspace c) \<and>
         (contents = ascii ''  secret123  \<newline>'' \<longrightarrow> py_strip contents = ascii ''secret123'')"
proof -
  have "resolve_password env opts em s2 = (Inr (py_strip contents), log (OpenFile path) s2)"
    using assms(4,5) by (simp add: resolve_password_def Let_def)
  moreover have "handle env opts s =
           Some (except_integrity_error
             (call_create env realm em name (py_strip contents) (log (OpenFile path) s2)))"
    by (simp add: handle_reaches_creation[OF assms(1-3)] create_body_file[OF assms(4,5)])
  moreover note py_strip_decompose[of contents]
  moreover have "\<forall>c rest. py_strip contents = c # rest \<longrightarrow> \<not> py_isspace c"
    by (blast dest: py_strip_first)
  moreover have "\<forall>front c. py_strip contents = front @ [c] \<longrightarrow> \<not> py_isspace c"
    by (blast dest: py_strip_last)
  moreover have "contents = ascii ''  secret123  \<newline>'' \<longrightarrow> py_strip contents = ascii ''secret123''"
    by (simp add: py_strip_example)
  ultimately show ?thesis by blast
qed

theorem password_file_stripped_witness:
  "password_file (demo_opts\<lparr>password := None\<rparr>) = Some (ascii ''pw.txt'') \<and>
   read_file demo_env (ascii ''pw.txt'') = Inr (ascii ''  secret123  \<newline>'') \<and>
   resolve_password demo_env (demo_opts\<lparr>password := None\<rparr>) (ascii ''iago@zulip.com'')
       (log (ValidateEmail (ascii ''iago@zulip.com'')) (log GetRealm s0))
     = (Inr (ascii ''secret123''),
        \<lparr>trace = [GetRealm, ValidateEmail (ascii ''iago@zulip.com''), OpenFile (ascii ''pw.txt'')],
         stdin_pos = 0\<rparr>)"
proof -
  let ?opts = "demo_opts\<lparr>password := None\<rparr>"
  have t: "tos ?opts"
    by (simp add: demo_opts_def)
  have r: "get_realm demo_env ?opts = Inr (Some 1)"
    by (simp add: demo_env_def demo_opts_def)
  have i: "resolve_identity demo_env ?opts (log GetRealm s0) =
             Some (Inr (ascii ''iago@zulip.com'', ascii ''Iago''),
                   log (ValidateEmail (ascii ''iago@zulip.com'')) (log GetRealm s0))"
    by (simp add: resolve_identity_def lookup_positionals_def demo_opts_def demo_env_def ascii_def)
  have f: "password_file ?opts = Some (ascii ''pw.txt'')"
    by (simp add: demo_opts_def)
  have c: "read_file demo_env (ascii ''pw.txt'') = Inr (ascii ''  secret123  \<newline>'')"
    by (simp add: demo_env_def)
  from password_file_stripped [OF t r i f c]
  have "resolve_password demo_env ?opts (ascii ''iago@zulip.com'')
          (log (ValidateEmail (ascii ''iago@zulip.com'')) (log GetRealm s0))
        = (Inr (py_strip (ascii ''  secret123  \<newline>'')),
           log (OpenFile (ascii ''pw.txt'')) (log (ValidateEmail (ascii ''iago@zulip.com'')) (log GetRealm s0)))"
    and "py_strip (ascii ''  secret123  \<newline>'') = ascii ''secret123''"
    by blast+
  then have "resolve_password demo_env ?opts (ascii ''iago@zulip.com'')
          (log (ValidateEmail (ascii ''iago@zulip.com'')) (log GetRealm s0))
        = (Inr (ascii ''secret123''),
        \<lparr>trace = [GetRealm, ValidateEmail (ascii ''iago@zulip.com''), OpenFile (ascii ''pw.txt'')],
         stdin_pos = 0\<rparr>)"
    by (simp add: log_def s0_def)
  with f c show ?thesis by simp
qed

text \<open>
  C7, as stated, against the code: with neither a password file nor a \<^verbatim>\<open>--password\<close>
  and without the flag \<^verbatim>\<open>tos\<close>, the command fails at the guard of line 44 and its
  trace stays empty: the helper is never asked.
\<close>

theorem initial_password_counterexample:
  "password_file (demo_opts\<lparr>tos := False, password := None, password_file := None\<rparr>) = None \<and>
   password (demo_opts\<lparr>tos := False, password := None, password_file := None\<rparr>) = None \<and>
   handle demo_env (demo_opts\<lparr>tos := False, password := None, password_file := None\<rparr>) s0
     = Some (Inl (CommandError tos_message), \<lparr>trace = [], stdin_pos = 0\<rparr>)"
  by (simp add: handle_def s0_def)

text \<open>
  C7, amended. For an invocation that gets as far as the password (the flag \<^verbatim>\<open>tos\<close>
  is set, the realm and the identity are resolved) with neither a password file nor a
  \<^verbatim>\<open>--password\<close>: the command asks the helper for the initial password of the resolved
  email (the trace records the call, with that email). When the helper returns no usable
  password the command raises the command error \<^verbatim>\<open>Password is unusable.\<close> and the
  user-creation operation is not called; when it returns a password, that password is the
  one passed to \<^verbatim>\<open>do_create_user\<close>.
\<close>

theorem initial_password_fallback:
  assumes "tos opts" and "get_realm env opts = Inr (Some realm)"
    and "resolve_identity env opts (log GetRealm s) = Some (Inr (em, name), s2)"
    and "password_file opts = None" and "password opts = None"
  shows "(initial_password env em = Inr None \<longrightarrow>
            handle env opts s =
              Some (Inl (CommandError ''Password is unusable.''), log (InitialPassword em) s2) \<and>
            creations (log (InitialPassword em) s2) = creations s) \<and>
         (\<forall>p. initial_password env em = Inr (Some p) \<longrightarrow>
            handle env opts s =
              Some (except_integrity_error
                (call_create env realm em name p (log (InitialPassword em) s2))))"
proof -
  note reach = handle_reaches_creation[OF assms(1-3)]
  from resolve_identity_creations[OF assms(3)] have c: "creations s2 = creations (log GetRealm s)"
    by simp
  have "handle env opts s =
          Some (Inl (CommandError ''Password is unusable.''), log (InitialPassword em) s2)"
    if "initial_password env em = Inr None"
    using that assms(4,5)
    by (simp add: reach create_body_def resolve_password_def Let_def except_integrity_error_def)
  moreover have "creations (log (InitialPassword em) s2) = creations s"
    using c by (simp add: creations_log)
  moreover have "handle env opts s =
          Some (except_integrity_error
            (call_create env realm em name p (log (InitialPassword em) s2)))"
    if "initial_password env em = Inr (Some p)" for p
    using that assms(4,5) by (simp add: reach create_body_helper)
  ultimately show ?thesis by blast
qed

theorem initial_password_fallback_witness:
  "password_file (demo_opts\<lparr>password := None, password_file := None\<rparr>) = None \<and>
   password (demo_opts\<lparr>password := None, password_file := None\<rparr>) = None \<and>
   initial_password demo_env (ascii ''iago@zulip.com'') = Inr (Some (ascii ''xyz'')) \<and>
   handle demo_env (demo_opts\<lparr>password := None, password_file := None\<rparr>) s0 =
     Some (Inr (),
       \<lparr>trace = [GetRealm, ValidateEmail (ascii ''iago@zulip.com''),
                 InitialPassword (ascii ''iago@zulip.com''),
                 DoCreateUser (ascii ''iago@zulip.com'') (ascii ''xyz'') 1 (ascii ''Iago'') None],
        stdin_pos = 0\<rparr>)"
proof -
  let ?opts = "demo_opts\<lparr>password := None, password_file := None\<rparr>"
  have t: "tos ?opts"
    by (simp add: demo_opts_def)
  have r: "get_realm demo_env ?opts = Inr (Some 1)"
    by (simp add: demo_env_def demo_opts_def)
  have i: "resolve_identity demo_env ?opts (log GetRealm s0) =
             Some (Inr (ascii ''iago@zulip.com'', ascii ''Iago''),
                   log (ValidateEmail (ascii ''iago@zulip.com'')) (log GetRealm s0))"
    by (simp add: resolve_identity_def lookup_positionals_def demo_opts_def demo_env_def ascii_def)
  have f: "password_file ?opts = None" and p: "password ?opts = None"
    by simp_all
  have h: "initial_password demo_env (ascii ''iago@zulip.com'') = Inr (Some (ascii ''xyz''))"
    by (simp add: demo_env_def)
  from initial_password_fallback [OF t r i f p] h
  have "handle demo_env ?opts s0 =
          Some (except_integrity_error
            (call_create demo_env 1 (ascii ''iago@zulip.com'') (ascii ''Iago'') (ascii ''xyz'')
               (log (InitialPassword (ascii ''iago@zulip.com''))
                  (log (ValidateEmail (ascii ''iago@zulip.com'')) (log GetRealm s0)))))"
    by blast
  moreover have "do_create_user demo_env (ascii ''iago@zulip.com'') (ascii ''xyz'') 1 (ascii ''Iago'') None = None"
    by (simp add: demo_env_def ascii_def)
  ultimately have "handle demo_env ?opts s0 =
     Some (Inr (),
       \<lparr>trace = [GetRealm, ValidateEmail (ascii ''iago@zulip.com''),
                 InitialPassword (ascii ''iago@zulip.com''),
                 DoCreateUser (ascii ''iago@zulip.com'') (ascii ''xyz'') 1 (ascii ''Iago'') None],
        stdin_pos = 0\<rparr>)"
    by (simp add: call_create_def except_integrity_error_def log_def s0_def)
  with f p h show ?thesis by simp
qed

subsection \<open>Failures of the second half\<close>

text \<open>
  C10. When the password file cannot be opened or read, the error of the file system
  comes out of the command unchanged: it is the exception that \<^verbatim>\<open>handle\<close> raises,
  it is not a command error, and the user-creation operation is not called.
\<close>

theorem password_file_error_propagates:
  assumes "tos opts" and "get_realm env opts = Inr (Some realm)"
    and "resolve_identity env opts (log GetRealm s) = Some (Inr (em, name), s2)"
    and "password_file opts = Some path" and "read_file env path = Inl x"
  shows "handle env opts s = Some (Inl (FileError x), log (OpenFile path) s2) \<and>
         (\<forall>m. FileError x \<noteq> CommandError m) \<and>
         creations (log (OpenFile path) s2) = creations s"
proof -
  from resolve_identity_creations[OF assms(3)] have "creations s2 = creations (log GetRealm s)"
    by simp
  then have "creations (log (OpenFile path) s2) = creations s"
    by (simp add: creations_log)
  moreover have "handle env opts s = Some (Inl (FileError x), log (OpenFile path) s2)"
    using assms(4,5)
    by (simp add: handle_reaches_creation[OF assms(1-3)] create_body_def resolve_password_def
          Let_def except_integrity_error_def)
  ultimately show ?thesis by simp
qed

theorem password_file_error_propagates_witness:
  "password_file (demo_opts\<lparr>password_file := Some (ascii ''missing.txt'')\<rparr>) = Some (ascii ''missing.txt'') \<and>
   read_file demo_env (ascii ''missing.txt'') = Inl FileNotFoundError \<and>
   handle demo_env (demo_opts\<lparr>password_file := Some (ascii ''missing.txt'')\<rparr>) s0 =
     Some (Inl (FileError FileNotFoundError),
       \<lparr>trace = [GetRealm, ValidateEmail (ascii ''iago@zulip.com''), OpenFile (ascii ''missing.txt'')],
        stdin_pos = 0\<rparr>)"
proof -
  let ?opts = "demo_opts\<lparr>password_file := Some (ascii ''missing.txt'')\<rparr>"
  have t: "tos ?opts"
    by (simp add: demo_opts_def)
  have r: "get_realm demo_env ?opts = Inr (Some 1)"
    by (simp add: demo_env_def demo_opts_def)
  have i: "resolve_identity demo_env ?opts (log GetRealm s0) =
             Some (Inr (ascii ''iago@zulip.com'', ascii ''Iago''),
                   log (ValidateEmail (ascii ''iago@zulip.com'')) (log GetRealm s0))"
    by (simp add: resolve_identity_def lookup_positionals_def demo_opts_def demo_env_def ascii_def)
  have f: "password_file ?opts = Some (ascii ''missing.txt'')"
    by simp
  have c: "read_file demo_env (ascii ''missing.txt'') = Inl FileNotFoundError"
    by (simp add: demo_env_def ascii_def)
  from password_file_error_propagates [OF t r i f c]
  have "handle demo_env ?opts s0 =
          Some (Inl (FileError FileNotFoundError),
                log (OpenFile (ascii ''missing.txt''))
                  (log (ValidateEmail (ascii ''iago@zulip.com'')) (log GetRealm s0)))"
    by blast
  with f c show ?thesis by (simp add: log_def s0_def)
qed

text \<open>
  C3, as stated, against the code: the \<^verbatim>\<open>try\<close> of line 71 covers the password
  resolution as well as the call of \<^verbatim>\<open>do_create_user\<close>. When the helper
  \<^verbatim>\<open>initial_password\<close> raises \<^verbatim>\<open>IntegrityError\<close>, that failure of the password
  resolution does not come out unchanged: the handler of line 89 turns it into the command
  error \<^verbatim>\<open>User already exists.\<close>, although \<^verbatim>\<open>do_create_user\<close> was never called.
\<close>

theorem integrity_error_counterexample:
  "initial_password demo_env (ascii ''clash@zulip.com'') = Inl IntegrityError \<and>
   handle demo_env
       (demo_opts\<lparr>email := Some (ascii ''clash@zulip.com''), password := None,
                   password_file := None\<rparr>) s0 =
     Some (Inl (CommandError ''User already exists.''),
       \<lparr>trace = [GetRealm, ValidateEmail (ascii ''clash@zulip.com''),
                 InitialPassword (ascii ''clash@zulip.com'')],
        stdin_pos = 0\<rparr>) \<and>
   CommandError ''User already exists.'' \<noteq> IntegrityError"
  by (simp add: handle_def demo_env_def demo_opts_def s0_def log_def resolve_identity_def
        lookup_positionals_def except_integrity_error_def create_body_def
        resolve_password_def ascii_def)

text \<open>
  C3, amended. For an invocation that gets as far as the password: when
  \<^verbatim>\<open>do_create_user\<close> raises \<^verbatim>\<open>IntegrityError\<close>, the command raises the command
  error \<^verbatim>\<open>User already exists.\<close>, and the exit is non-zero; any other exception of
  \<^verbatim>\<open>do_create_user\<close> is raised by the command unchanged. A failure of the password
  resolution is raised unchanged when it is not \<^verbatim>\<open>IntegrityError\<close>, and is turned
  into the same command error when it is: the handler of line 89 covers lines 72 to 88.
\<close>

theorem integrity_error_translated:
  assumes "tos opts" and "get_realm env opts = Inr (Some realm)"
    and "resolve_identity env opts (log GetRealm s) = Some (Inr (em, name), s2)"
  shows "(\<forall>pw s3. resolve_password env opts em s2 = (Inr pw, s3) \<longrightarrow>
              do_create_user env em pw realm name None = Some IntegrityError \<longrightarrow>
            handle env opts s =
              Some (Inl (CommandError ''User already exists.''),
                    log (DoCreateUser em pw realm name None) s3) \<and>
            exit_nonzero (Inl (CommandError ''User already exists.''))) \<and>
         (\<forall>pw s3 x. resolve_password env opts em s2 = (Inr pw, s3) \<longrightarrow>
              do_create_user env em pw realm name None = Some x \<longrightarrow> x \<noteq> IntegrityError \<longrightarrow>
            handle env opts s = Some (Inl x, log (DoCreateUser em pw realm name None) s3)) \<and>
         (\<forall>x s3. resolve_password env opts em s2 = (Inl x, s3) \<longrightarrow> x \<noteq> IntegrityError \<longrightarrow>
            handle env opts s = Some (Inl x, s3)) \<and>
         (\<forall>s3. resolve_password env opts em s2 = (Inl IntegrityError, s3) \<longrightarrow>
            handle env opts s = Some (Inl (CommandError ''User already exists.''), s3))"
proof -
  note reach = handle_reaches_creation[OF assms]
  have a: "handle env opts s =
             Some (Inl (CommandError ''User already exists.''),
                   log (DoCreateUser em pw realm name None) s3)"
    if "resolve_password env opts em s2 = (Inr pw, s3)"
      and "do_create_user env em pw realm name None = Some IntegrityError" for pw s3
    using that
    by (simp add: reach create_body_def call_create_def Let_def except_integrity_error_def)
  have b: "handle env opts s = Some (Inl x, log (DoCreateUser em pw realm name None) s3)"
    if "resolve_password env opts em s2 = (Inr pw, s3)"
      and "do_create_user env em pw realm name None = Some x" and "x \<noteq> IntegrityError" for pw s3 x
    using that
    by (simp add: reach create_body_def call_create_def Let_def except_integrity_error_def)
  have c: "handle env opts s = Some (Inl x, s3)"
    if "resolve_password env opts em s2 = (Inl x, s3)" and "x \<noteq> IntegrityError" for x s3
    using that by (simp add: reach create_body_def except_integrity_error_def)
  have e: "handle env opts s = Some (Inl (CommandError ''User already exists.''), s3)"
    if "resolve_password env opts em s2 = (Inl IntegrityError, s3)" for s3
    using that by (simp add: reach create_body_def except_integrity_error_def)
  have d: "exit_nonzero (Inl (CommandError ''User already exists.''))"
    by (simp add: exit_nonzero_def)
  from a b c d e show ?thesis by blast
qed

theorem integrity_error_translated_witness:
  "do_create_user demo_env (ascii ''dup@zulip.com'') (ascii ''secret123'') 1 (ascii ''Iago'') None
     = Some IntegrityError \<and>
   handle demo_env (demo_opts\<lparr>email := Some (ascii ''dup@zulip.com'')\<rparr>) s0 =
     Some (Inl (CommandError ''User already exists.''),
       \<lparr>trace = [GetRealm, ValidateEmail (ascii ''dup@zulip.com''), OpenFile (ascii ''pw.txt''),
                 DoCreateUser (ascii ''dup@zulip.com'') (ascii ''secret123'') 1 (ascii ''Iago'') None],
        stdin_pos = 0\<rparr>) \<and>
   do_create_user demo_env (ascii ''down@zulip.com'') (ascii ''secret123'') 1 (ascii ''Iago'') None
     = Some (OtherError ''database is down'') \<and>
   handle demo_env (demo_opts\<lparr>email := Some (ascii ''down@zulip.com'')\<rparr>) s0 =
     Some (Inl (OtherError ''database is down''),
       \<lparr>trace = [GetRealm, ValidateEmail (ascii ''down@zulip.com''), OpenFile (ascii ''pw.txt''),
                 DoCreateUser (ascii ''down@zulip.com'') (ascii ''secret123'') 1 (ascii ''Iago'') None],
        stdin_pos = 0\<rparr>) \<and>
   handle demo_env (demo_opts\<lparr>password_file := Some (ascii ''missing.txt'')\<rparr>) s0 =
     Some (Inl (FileError FileNotFoundError),
       \<lparr>trace = [GetRealm, ValidateEmail (ascii ''iago@zulip.com''), OpenFile (ascii ''missing.txt'')],
        stdin_pos = 0\<rparr>)"
proof -
  let ?opts = "demo_opts\<lparr>email := Some (ascii ''dup@zulip.com'')\<rparr>"
  let ?s2 = "log (ValidateEmail (ascii ''dup@zulip.com'')) (log GetRealm s0)"
  have t: "tos ?opts"
    by (simp add: demo_opts_def)
  have r: "get_realm demo_env ?opts = Inr (Some 1)"
    by (simp add: demo_env_def demo_opts_def)
  have i: "resolve_identity demo_env ?opts (log GetRealm s0) =
             Some (Inr (ascii ''dup@zulip.com'', ascii ''Iago''), ?s2)"
    by (simp add: resolve_identity_def lookup_positionals_def demo_opts_def demo_env_def ascii_def)
  have p: "resolve_password demo_env ?opts (ascii ''dup@zulip.com'') ?s2 =
             (Inr (ascii ''secret123''), log (OpenFile (ascii ''pw.txt'')) ?s2)"
    by (simp add: resolve_password_def demo_opts_def demo_env_def py_strip_example)
  have d: "do_create_user demo_env (ascii ''dup@zulip.com'') (ascii ''secret123'') 1 (ascii ''Iago'') None
             = Some IntegrityError"
    by (simp add: demo_env_def)
  from integrity_error_translated [OF t r i] p d
  have dup: "handle demo_env ?opts s0 =
          Some (Inl (CommandError ''User already exists.''),
                log (DoCreateUser (ascii ''dup@zulip.com'') (ascii ''secret123'') 1 (ascii ''Iago'') None)
                  (log (OpenFile (ascii ''pw.txt'')) ?s2))"
    by blast
  let ?opts' = "demo_opts\<lparr>email := Some (ascii ''down@zulip.com'')\<rparr>"
  let ?s2' = "log (ValidateEmail (ascii ''down@zulip.com'')) (log GetRealm s0)"
  have t': "tos ?opts'"
    by (simp add: demo_opts_def)
  have r': "get_realm demo_env ?opts' = Inr (Some 1)"
    by (simp add: demo_env_def demo_opts_def)
  have i': "resolve_identity demo_env ?opts' (log GetRealm s0) =
             Some (Inr (ascii ''down@zulip.com'', ascii ''Iago''), ?s2')"
    by (simp add: resolve_identity_def lookup_positionals_def demo_opts_def demo_env_def ascii_def)
  have p': "resolve_password demo_env ?opts' (ascii ''down@zulip.com'') ?s2' =
             (Inr (ascii ''secret123''), log (OpenFile (ascii ''pw.txt'')) ?s2')"
    by (simp add: resolve_password_def demo_opts_def demo_env_def py_strip_example)
  have d': "do_create_user demo_env (ascii ''down@zulip.com'') (ascii ''secret123'') 1 (ascii ''Iago'') None
             = Some (OtherError ''database is down'')"
    by (simp add: demo_env_def ascii_def)
  have n: "OtherError ''database is down'' \<noteq> IntegrityError"
    by simp
  from integrity_error_translated [OF t' r' i'] p' d' n
  have down: "handle demo_env ?opts' s0 =
          Some (Inl (OtherError ''database is down''),
                log (DoCreateUser (ascii ''down@zulip.com'') (ascii ''secret123'') 1 (ascii ''Iago'') None)
                  (log (OpenFile (ascii ''pw.txt'')) ?s2'))"
    by blast
  let ?opts'' = "demo_opts\<lparr>password_file := Some (ascii ''missing.txt'')\<rparr>"
  let ?s2'' = "log (ValidateEmail (ascii ''iago@zulip.com'')) (log GetRealm s0)"
  have t'': "tos ?opts''"
    by (simp add: demo_opts_def)
  have r'': "get_realm demo_env ?opts'' = Inr (Some 1)"
    by (simp add: demo_env_def demo_opts_def)
  have i'': "resolve_identity demo_env ?opts'' (log GetRealm s0) =
             Some (Inr (ascii ''iago@zulip.com'', ascii ''Iago''), ?s2'')"
    by (simp add: resolve_identity_def lookup_positionals_def demo_opts_def demo_env_def ascii_def)
  have p'': "resolve_password demo_env ?opts'' (ascii ''iago@zulip.com'') ?s2'' =
             (Inl (FileError FileNotFoundError), log (OpenFile (ascii ''missing.txt'')) ?s2'')"
    by (simp add: resolve_password_def demo_env_def ascii_def)
  have n'': "FileError FileNotFoundError \<noteq> IntegrityError"
    by simp
  from integrity_error_translated [OF t'' r'' i''] p'' n''
  have missing: "handle demo_env ?opts'' s0 =
          Some (Inl (FileError FileNotFoundError), log (OpenFile (ascii ''missing.txt'')) ?s2'')"
    by blast
  from dup down missing d d' show ?thesis by (simp add: log_def s0_def)
qed

subsection \<open>The call of the user-creation operation\<close>

text \<open>
  C9. An invocation that returns normally has called the user-creation operation exactly
  once: the realm is the one the lookup returned, the email and the full name are the ones
  resolved in lines 50 to 69, the password is the one resolved in lines 72 to 81, the
  acting user is \<^verbatim>\<open>None\<close>, the call is the last effect of the command, and it is the
  only call that the invocation adds to the trace.
\<close>

theorem success_creates_once:
  assumes "handle env opts s = Some (Inr (), s')"
  shows "\<exists>realm em name pw s2 s3.
           get_realm env opts = Inr (Some realm) \<and>
           resolve_identity env opts (log GetRealm s) = Some (Inr (em, name), s2) \<and>
           resolve_password env opts em s2 = (Inr pw, s3) \<and>
           do_create_user env em pw realm name None = None \<and>
           s' = log (DoCreateUser em pw realm name None) s3 \<and>
           creations s' = creations s @ [DoCreateUser em pw realm name None]"
proof -
  from assms have t: "tos opts"
    by (auto simp: handle_def split: if_splits)
  with assms obtain realm where r: "get_realm env opts = Inr (Some realm)"
    by (auto simp: handle_def Let_def split: sum.splits option.splits)
  with assms t obtain em name s2 where
    i: "resolve_identity env opts (log GetRealm s) = Some (Inr (em, name), s2)"
    by (auto simp: handle_def Let_def split: sum.splits option.splits)
  from assms have body: "except_integrity_error (create_body env opts realm em name s2) = (Inr (), s')"
    by (simp add: handle_reaches_creation[OF t r i])
  then have body': "create_body env opts realm em name s2 = (Inr (), s')"
    by (auto simp: except_integrity_error_def split: if_splits)
  obtain rp s3 where p0: "resolve_password env opts em s2 = (rp, s3)"
    by (cases "resolve_password env opts em s2")
  with body' obtain pw where p: "resolve_password env opts em s2 = (Inr pw, s3)"
    by (cases rp) (auto simp: create_body_def)
  with body' have call: "call_create env realm em name pw s3 = (Inr (), s')"
    by (simp add: create_body_def)
  then have d: "do_create_user env em pw realm name None = None"
    and s': "s' = log (DoCreateUser em pw realm name None) s3"
    by (auto simp: call_create_def Let_def split: option.splits)
  from resolve_identity_creations[OF i] have "creations s2 = creations s"
    by (simp add: creations_log)
  moreover from resolve_password_creations[OF p] have "creations s3 = creations s2" .
  ultimately have "creations s' = creations s @ [DoCreateUser em pw realm name None]"
    using s' by (simp add: creations_log)
  with r i p d s' show ?thesis by blast
qed

theorem success_creates_once_witness:
  "handle demo_env demo_opts s0 =
     Some (Inr (),
       \<lparr>trace = [GetRealm, ValidateEmail (ascii ''iago@zulip.com''), OpenFile (ascii ''pw.txt''),
                 DoCreateUser (ascii ''iago@zulip.com'') (ascii ''secret123'') 1 (ascii ''Iago'') None],
        stdin_pos = 0\<rparr>) \<and>
   creations
       \<lparr>trace = [GetRealm, ValidateEmail (ascii ''iago@zulip.com''), OpenFile (ascii ''pw.txt''),
                 DoCreateUser (ascii ''iago@zulip.com'') (ascii ''secret123'') 1 (ascii ''Iago'') None],
        stdin_pos = 0\<rparr>
     = [DoCreateUser (ascii ''iago@zulip.com'') (ascii ''secret123'') (1::nat) (ascii ''Iago'')
          (None :: nat option)]"
proof -
  let ?ev = "DoCreateUser (ascii ''iago@zulip.com'') (ascii ''secret123'') (1::nat) (ascii ''Iago'')
               (None :: nat option)"
  let ?s' = "\<lparr>trace = [GetRealm, ValidateEmail (ascii ''iago@zulip.com''),
                       OpenFile (ascii ''pw.txt''), ?ev],
              stdin_pos = 0\<rparr>"
  have h: "handle demo_env demo_opts s0 = Some (Inr (), ?s')"
    by (simp add: handle_def demo_env_def demo_opts_def s0_def log_def resolve_identity_def
          lookup_positionals_def except_integrity_error_def create_body_def call_create_def
          resolve_password_def py_strip_def ascii_def py_isspace_def)
  from success_creates_once [OF h] obtain em name pw realm s3 where
    last: "?s' = log (DoCreateUser em pw realm name None) s3" and
    once: "creations ?s' = creations s0 @ [DoCreateUser em pw realm name None]"
    by blast
  from last have "trace ?s' = trace s3 @ [DoCreateUser em pw realm name None]"
    by (simp add: log_def)
  then have "?ev = DoCreateUser em pw realm name None"
    by (simp add: append_eq_Cons_conv)
  with once have "creations ?s' = creations s0 @ [?ev]"
    by simp
  then have "creations ?s' = [?ev]"
    by (simp add: creations_def s0_def)
  with h show ?thesis by simp
qed

subsection \<open>The interactive loop\<close>

lemma resolve_identity_interactive:
  assumes "email opts = None" and "full_name opts = None"
    and "\<forall>i<length bad. stdin env (stdin_pos s + i) = Some (bad ! i) \<and> \<not> validate_email env (bad ! i)"
    and "stdin env (stdin_pos s + length bad) = Some e" and "validate_email env e"
    and "stdin env (stdin_pos s + length bad + 1) = Some name"
  shows "resolve_identity env opts s =
         Some (Inr (e, name),
               \<lparr>trace = trace s @ rejected bad @
                          [Input ''Email: '', ValidateEmail e, Input ''Full name: ''],
                stdin_pos = stdin_pos s + length bad + 2\<rparr>)"
proof -
  let ?s1 = "\<lparr>trace = trace s @ rejected bad, stdin_pos = stdin_pos s + length bad\<rparr> :: ('a, 'b) state"
  let ?s2 = "\<lparr>trace = trace ?s1 @ [Input ''Email: '', ValidateEmail e],
              stdin_pos = Suc (stdin_pos ?s1)\<rparr> :: ('a, 'b) state"
  have "prompt_email env s = prompt_email env ?s1"
    using assms(3) by (rule prompt_email_rounds)
  also have "\<dots> = Some (Inr e, ?s2)"
    using assms(4,5) by (intro prompt_email_accept) simp_all
  finally have loop: "prompt_email env s = Some (Inr e, ?s2)" .
  have "stdin env (stdin_pos ?s2) = Some name"
    using assms(6) by simp
  then have inp: "py_input env ''Full name: '' ?s2 =
      (Inr name, \<lparr>trace = trace ?s2 @ [Input ''Full name: ''], stdin_pos = Suc (stdin_pos ?s2)\<rparr>)"
    by (rule py_input_line)
  from assms(1,2) loop inp show ?thesis
    by (simp add: resolve_identity_def lookup_positionals_def)
qed

text \<open>
  C8, as stated, against the code: with neither positional and without the flag
  \<^verbatim>\<open>tos\<close> the command fails at the guard of line 44 and its trace stays empty: no
  prompt is written and no line is read, although standard input holds three lines.
\<close>

theorem interactive_counterexample:
  "email (demo_opts\<lparr>tos := False, email := None, full_name := None\<rparr>) = None \<and>
   full_name (demo_opts\<lparr>tos := False, email := None, full_name := None\<rparr>) = None \<and>
   handle demo_env (demo_opts\<lparr>tos := False, email := None, full_name := None\<rparr>) s0
     = Some (Inl (CommandError tos_message), \<lparr>trace = [], stdin_pos = 0\<rparr>)"
  by (simp add: handle_def s0_def)

lemma handle_interactive:
  assumes "tos opts" and "get_realm env opts = Inr (Some realm)"
    and "email opts = None" and "full_name opts = None"
    and "\<forall>i<length bad. stdin env (stdin_pos s + i) = Some (bad ! i) \<and> \<not> validate_email env (bad ! i)"
    and "stdin env (stdin_pos s + length bad) = Some e" and "validate_email env e"
    and "stdin env (stdin_pos s + length bad + 1) = Some name"
  shows "handle env opts s =
         Some (except_integrity_error
           (create_body env opts realm e name
              \<lparr>trace = trace s @ [GetRealm] @ rejected bad @
                         [Input ''Email: '', ValidateEmail e, Input ''Full name: ''],
               stdin_pos = stdin_pos s + length bad + 2\<rparr>))"
proof -
  let ?s1 = "log GetRealm s"
  have pos: "stdin_pos ?s1 = stdin_pos s" and tr: "trace ?s1 = trace s @ [GetRealm]"
    by (simp_all add: log_def)
  from assms(5) have bad:
    "\<forall>i<length bad. stdin env (stdin_pos ?s1 + i) = Some (bad ! i) \<and> \<not> validate_email env (bad ! i)"
    by (simp only: pos)
  from assms(6) have good: "stdin env (stdin_pos ?s1 + length bad) = Some e"
    by (simp only: pos)
  from assms(8) have full: "stdin env (stdin_pos ?s1 + length bad + 1) = Some name"
    by (simp only: pos)
  from resolve_identity_interactive[OF assms(3,4) bad good assms(7) full]
  have "resolve_identity env opts ?s1 =
         Some (Inr (e, name),
               \<lparr>trace = trace s @ [GetRealm] @ rejected bad @
                          [Input ''Email: '', ValidateEmail e, Input ''Full name: ''],
                stdin_pos = stdin_pos s + length bad + 2\<rparr>)"
    by (simp add: pos tr)
  with assms(1,2) show ?thesis by (rule handle_reaches_creation)
qed

text \<open>
  When the input ends before a line is accepted, the prompt raises \<^verbatim>\<open>EOFError\<close>,
  which the command does not catch.
\<close>

lemma handle_interactive_eof:
  assumes "tos opts" and "get_realm env opts = Inr (Some realm)"
    and "email opts = None" and "full_name opts = None"
    and "\<forall>i<length bad. stdin env (stdin_pos s + i) = Some (bad ! i) \<and> \<not> validate_email env (bad ! i)"
    and "stdin env (stdin_pos s + length bad) = None"
  shows "handle env opts s =
         Some (Inl EOFError,
               \<lparr>trace = trace s @ [GetRealm] @ rejected bad @ [Input ''Email: ''],
                stdin_pos = stdin_pos s + length bad\<rparr>)"
proof -
  let ?s1 = "log GetRealm s"
  let ?s2 = "\<lparr>trace = trace ?s1 @ rejected bad, stdin_pos = stdin_pos ?s1 + length bad\<rparr> :: ('a, 'b) state"
  have pos: "stdin_pos ?s1 = stdin_pos s" and tr: "trace ?s1 = trace s @ [GetRealm]"
    by (simp_all add: log_def)
  from assms(5) have bad:
    "\<forall>i<length bad. stdin env (stdin_pos ?s1 + i) = Some (bad ! i) \<and> \<not> validate_email env (bad ! i)"
    by (simp only: pos)
  have "prompt_email env ?s1 = prompt_email env ?s2"
    using bad by (rule prompt_email_rounds)
  also have "\<dots> = Some (Inl EOFError, log (Input ''Email: '') ?s2)"
    using assms(6) by (intro prompt_email_eof) (simp add: pos)
  finally have "resolve_identity env opts ?s1 = Some (Inl EOFError, log (Input ''Email: '') ?s2)"
    using assms(3,4) by (simp add: resolve_identity_def lookup_positionals_def)
  with assms(1,2) have "handle env opts s = Some (Inl EOFError, log (Input ''Email: '') ?s2)"
    by (rule handle_fails_in_identity)
  then show ?thesis by (simp add: log_def)
qed

text \<open>When the input goes on for ever with lines that are refused, so does the loop.\<close>

lemma handle_interactive_forever:
  assumes "tos opts" and "get_realm env opts = Inr (Some realm)"
    and "email opts = None" and "full_name opts = None"
    and "\<forall>k. \<exists>line. stdin env (stdin_pos s + k) = Some line \<and> \<not> validate_email env line"
  shows "handle env opts s = None"
proof -
  from assms(5) have
    "\<forall>k. \<exists>line. stdin env (stdin_pos (log GetRealm s) + k) = Some line \<and> \<not> validate_email env line"
    by (simp add: log_def)
  then have "prompt_email env (log GetRealm s) = None"
    by (rule prompt_email_diverges)
  with assms(1-4) show ?thesis
    by (simp add: handle_def Let_def resolve_identity_def lookup_positionals_def)
qed

text \<open>
  C8, amended. When the flag \<^verbatim>\<open>tos\<close> is set, the realm resolves and neither
  positional is given, the command enters the loop of lines 62 to 68. If standard input
  holds the lines \<open>bad\<close>, all refused by the validator, then a line \<open>e\<close> that it
  accepts, then a line \<open>name\<close>, the console traffic is: for each line of \<open>bad\<close> the
  prompt, the validation and the error message; the prompt and the validation for \<open>e\<close>;
  one prompt for the full name. The command goes on to the password with the email
  \<open>e\<close> and the full name \<open>name\<close>, which no validator has seen. If standard input
  never ends and never holds a line that the validator accepts, the command never returns.
\<close>

theorem interactive_prompts:
  assumes "tos opts" and "get_realm env opts = Inr (Some realm)"
    and "email opts = None" and "full_name opts = None"
  shows "(\<forall>bad e name.
            (\<forall>i<length bad. stdin env (stdin_pos s + i) = Some (bad ! i) \<and>
                              \<not> validate_email env (bad ! i)) \<longrightarrow>
            stdin env (stdin_pos s + length bad) = Some e \<longrightarrow> validate_email env e \<longrightarrow>
            stdin env (stdin_pos s + length bad + 1) = Some name \<longrightarrow>
            handle env opts s =
              Some (except_integrity_error
                (create_body env opts realm e name
                   \<lparr>trace = trace s @ [GetRealm] @ rejected bad @
                              [Input ''Email: '', ValidateEmail e, Input ''Full name: ''],
                    stdin_pos = stdin_pos s + length bad + 2\<rparr>))) \<and>
         ((\<forall>k. \<exists>line. stdin env (stdin_pos s + k) = Some line \<and> \<not> validate_email env line) \<longrightarrow>
            handle env opts s = None)"
  using handle_interactive[OF assms] handle_interactive_forever[OF assms] by blast

theorem interactive_prompts_witness:
  "email (demo_opts\<lparr>email := None, full_name := None\<rparr>) = None \<and>
   full_name (demo_opts\<lparr>email := None, full_name := None\<rparr>) = None \<and>
   \<not> validate_email demo_env (ascii ''bad'') \<and>
   handle demo_env (demo_opts\<lparr>email := None, full_name := None\<rparr>) s0 =
     Some (Inr (),
       \<lparr>trace = [GetRealm,
                 Input ''Email: '', ValidateEmail (ascii ''bad''), PrintStderr ''Invalid email address.'',
                 Input ''Email: '', ValidateEmail (ascii ''iago@zulip.com''),
                 Input ''Full name: '',
                 OpenFile (ascii ''pw.txt''),
                 DoCreateUser (ascii ''iago@zulip.com'') (ascii ''secret123'') 1 (ascii ''Iago'') None],
        stdin_pos = 3\<rparr>)"
proof -
  let ?opts = "demo_opts\<lparr>email := None, full_name := None\<rparr>"
  have t: "tos ?opts"
    by (simp add: demo_opts_def)
  have r: "get_realm demo_env ?opts = Inr (Some 1)"
    by (simp add: demo_env_def demo_opts_def)
  have e: "email ?opts = None" and n: "full_name ?opts = None"
    by simp_all
  have b: "\<forall>i<length [ascii ''bad'']. stdin demo_env (stdin_pos s0 + i) = Some ([ascii ''bad''] ! i) \<and>
             \<not> validate_email demo_env ([ascii ''bad''] ! i)"
    by (simp add: demo_env_def s0_def ascii_def)
  have g: "stdin demo_env (stdin_pos s0 + length [ascii ''bad'']) = Some (ascii ''iago@zulip.com'')"
    by (simp add: demo_env_def s0_def)
  have v: "validate_email demo_env (ascii ''iago@zulip.com'')"
    by (simp add: demo_env_def ascii_def)
  have f: "stdin demo_env (stdin_pos s0 + length [ascii ''bad''] + 1) = Some (ascii ''Iago'')"
    by (simp add: demo_env_def s0_def)
  have nb: "\<not> validate_email demo_env (ascii ''bad'')"
    by (simp add: demo_env_def ascii_def)
  have "handle demo_env ?opts s0 =
         Some (except_integrity_error
           (create_body demo_env ?opts 1 (ascii ''iago@zulip.com'') (ascii ''Iago'')
              \<lparr>trace = trace s0 @ [GetRealm] @ rejected [ascii ''bad''] @
                         [Input ''Email: '', ValidateEmail (ascii ''iago@zulip.com''),
                          Input ''Full name: ''],
               stdin_pos = stdin_pos s0 + length [ascii ''bad''] + 2\<rparr>))"
    using interactive_prompts [OF t r e n, of s0] b g v f by blast
  moreover have "password_file ?opts = Some (ascii ''pw.txt'')"
    by (simp add: demo_opts_def)
  moreover have "read_file demo_env (ascii ''pw.txt'') = Inr (ascii ''  secret123  \<newline>'')"
    by (simp add: demo_env_def)
  moreover have "do_create_user demo_env (ascii ''iago@zulip.com'') (ascii ''secret123'') 1 (ascii ''Iago'') None = None"
    by (simp add: demo_env_def ascii_def)
  ultimately have "handle demo_env ?opts s0 =
     Some (Inr (),
       \<lparr>trace = [GetRealm,
                 Input ''Email: '', ValidateEmail (ascii ''bad''), PrintStderr ''Invalid email address.'',
                 Input ''Email: '', ValidateEmail (ascii ''iago@zulip.com''),
                 Input ''Full name: '',
                 OpenFile (ascii ''pw.txt''),
                 DoCreateUser (ascii ''iago@zulip.com'') (ascii ''secret123'') 1 (ascii ''Iago'') None],
        stdin_pos = 3\<rparr>)"
    by (simp add: create_body_file py_strip_example call_create_def except_integrity_error_def
          log_def s0_def rejected_def)
  with e n nb show ?thesis by simp
qed

end
